theory Spec2Isabelle
  imports Main "HOL-Library.List_Lexorder" "HOL-Library.Multiset"
begin

section \<open>Python strings\<close>

text \<open>
  A Python \<open>str\<close> is a sequence of Unicode code points. The model keeps a string as the
  list of its code points, each a natural number; \<open>str\<close> turns a literal of the source
  into that list. Lists of code points are compared lexicographically, as Python compares
  strings.
\<close>

type_synonym pystr = "nat list"

definition str :: "string \<Rightarrow> pystr" where
  "str s = map of_char s"

text \<open>Truth value of a string in a condition: the empty string is false.\<close>

definition truthy :: "pystr \<Rightarrow> bool" where
  "truthy s = (s \<noteq> [])"

definition startswith :: "pystr \<Rightarrow> pystr \<Rightarrow> bool" where
  "startswith s p = (take (length p) s = p)"

definition endswith :: "pystr \<Rightarrow> pystr \<Rightarrow> bool" where
  "endswith s p = (length p \<le> length s \<and> drop (length s - length p) s = p)"

definition removeprefix :: "pystr \<Rightarrow> pystr \<Rightarrow> pystr" where
  "removeprefix s p = (if startswith s p then drop (length p) s else s)"

text \<open>\<open>s.replace(old, new)\<close> for one-character \<open>old\<close> and \<open>new\<close>.\<close>

definition replace_char :: "pystr \<Rightarrow> nat \<Rightarrow> nat \<Rightarrow> pystr" where
  "replace_char s old new = map (\<lambda>c. if c = old then new else c) s"

text \<open>\<open>s.lstrip(ch)\<close> and \<open>s.rstrip(ch)\<close> for a one-character argument.\<close>

definition lstrip :: "pystr \<Rightarrow> nat \<Rightarrow> pystr" where
  "lstrip s ch = dropWhile (\<lambda>c. c = ch) s"

definition rstrip :: "pystr \<Rightarrow> nat \<Rightarrow> pystr" where
  "rstrip s ch = rev (dropWhile (\<lambda>c. c = ch) (rev s))"

text \<open>\<open>s.split(sep)[0]\<close> for a one-character separator: the text before its first occurrence.\<close>

definition split_first :: "pystr \<Rightarrow> nat \<Rightarrow> pystr" where
  "split_first s sep = takeWhile (\<lambda>c. c \<noteq> sep) s"

definition SLASH :: nat where "SLASH = 47"
definition DASH :: nat where "DASH = 45"
definition DOT :: nat where "DOT = 46"
definition COLON :: nat where "COLON = 58"

text \<open>
  \<open>os.path.dirname\<close> and \<open>os.path.basename\<close> of \<open>posixpath\<close>: the head is the path up to
  and including its last slash; unless it is empty or made of slashes only, its trailing
  slashes are removed.
\<close>

definition path_head :: "pystr \<Rightarrow> pystr" where
  "path_head p = rev (dropWhile (\<lambda>c. c \<noteq> SLASH) (rev p))"

definition dirname :: "pystr \<Rightarrow> pystr" where
  "dirname p =
     (let head = path_head p
      in if head \<noteq> [] \<and> head \<noteq> replicate (length head) SLASH then rstrip head SLASH
         else head)"

definition basename :: "pystr \<Rightarrow> pystr" where
  "basename p = rev (takeWhile (\<lambda>c. c \<noteq> SLASH) (rev p))"

subsection \<open>Exceptions\<close>

datatype error =
    KeyError
  | AttributeError
  | UnicodeEncodeError
  | OSError
  | ParseError
  | NonTermination

subsection \<open>Characters: \<open>isalnum\<close>, UTF-8 and hexadecimal\<close>

definition ascii_isalnum :: "nat \<Rightarrow> bool" where
  "ascii_isalnum c = ((48 \<le> c \<and> c \<le> 57) \<or> (65 \<le> c \<and> c \<le> 90) \<or> (97 \<le> c \<and> c \<le> 122))"

text \<open>
  \<open>bytes.hex()\<close>: two lower-case hexadecimal digits for each byte.
\<close>

definition hex_digit :: "nat \<Rightarrow> nat" where
  "hex_digit d = (if d < 10 then 48 + d else 87 + d)"

definition hex_bytes :: "nat list \<Rightarrow> pystr" where
  "hex_bytes bs = concat (map (\<lambda>b. [hex_digit (b div 16), hex_digit (b mod 16)]) bs)"

text \<open>
  \<open>c.encode('utf-8')\<close> for one code point. A surrogate (U+D800 to U+DFFF) cannot be
  encoded: Python raises \<open>UnicodeEncodeError\<close>. Code points of a Python string are at
  most \<open>0x10FFFF\<close>.
\<close>

definition utf8_char :: "nat \<Rightarrow> error + nat list" where
  "utf8_char c =
     (if c < 128 then Inr [c]
      else if c < 2048 then Inr [192 + c div 64, 128 + c mod 64]
      else if 55296 \<le> c \<and> c \<le> 57343 then Inl UnicodeEncodeError
      else if c < 65536 then Inr [224 + c div 4096, 128 + (c div 64) mod 64, 128 + c mod 64]
      else Inr [240 + c div 262144, 128 + (c div 4096) mod 64, 128 + (c div 64) mod 64,
                128 + c mod 64])"

fun utf8_encode :: "pystr \<Rightarrow> error + nat list" where
  "utf8_encode [] = Inr []"
| "utf8_encode (c # s) =
     (case utf8_char c of
        Inl e \<Rightarrow> Inl e
      | Inr bs \<Rightarrow> (case utf8_encode s of Inl e \<Rightarrow> Inl e | Inr rest \<Rightarrow> Inr (bs @ rest)))"

section \<open>Data\<close>

subsection \<open>One row of the build's metadata file\<close>

text \<open>
  \<open>csv.DictReader\<close> yields every field as a string; a flag is set when its string is
  not empty.
\<close>

record installed_file_metadata =
  installed_file :: pystr
  module_path :: pystr
  product_copy_files :: pystr
  kernel_module_copy_files :: pystr
  is_platform_generated :: pystr
  soong_module_type :: pystr
  is_prebuilt_make_module :: pystr

subsection \<open>The parsed METADATA file\<close>

text \<open>
  The fields of \<open>metadata_file_pb2.Metadata\<close> that the program reads. \<open>sbom_ref\<close> is
  \<open>Some\<close> when \<open>WhichOneof('sbom')\<close> is \<open>'sbom_ref'\<close>.
\<close>

record URL =
  url_type :: int
  url_value :: pystr

record SBOMRef =
  sbom_url :: pystr
  sbom_checksum :: pystr
  sbom_element_id :: pystr

record ThirdParty =
  tp_version :: pystr
  tp_homepage :: pystr
  tp_url :: "URL list"
  tp_security_tag :: "pystr list"
  tp_sbom_ref :: "SBOMRef option"

record Metadata =
  md_name :: pystr
  third_party :: ThirdParty

subsection \<open>The document of \<open>sbom_data\<close>\<close>

text \<open>
  Modelled from the spec: the classes of the module \<open>sbom_data\<close> (Package, File,
  Relationship, the external references and Document), with the fields the program sets.
  A field the program leaves out of a constructor call is \<open>None\<close>, \<open>False\<close> or the empty
  list.
\<close>

datatype PackageExternalRefCategory = SECURITY

datatype PackageExternalRefType = cpe22Type | cpe23Type

record PackageExternalRef =
  ref_category :: PackageExternalRefCategory
  ref_type :: PackageExternalRefType
  ref_locator :: pystr

datatype RelationshipType = VARIANT_OF | GENERATED_FROM

record Relationship =
  id1 :: pystr
  relationship :: RelationshipType
  id2 :: pystr

record File =
  file_id :: pystr
  file_name :: pystr
  file_checksum :: pystr

record DocumentExternalReference =
  docref_id :: pystr
  docref_uri :: pystr
  docref_checksum :: pystr

record Package =
  pkg_id :: pystr
  pkg_name :: pystr
  pkg_version :: "pystr option"
  pkg_supplier :: "pystr option"
  pkg_download_location :: "pystr option"
  pkg_external_refs :: "PackageExternalRef list"
  pkg_files_analyzed :: bool
  pkg_verification_code :: "pystr option"
  pkg_file_ids :: "pystr list"

text \<open>
  The list of packages of the document holds objects. One of them, the product package,
  is changed after it was put in the list; the list holds a reference to it
  (\<open>ProductRef\<close>), and the object itself is a field of the state of the run. Every other
  package is never changed once it is in the list, and is kept there as a value.
\<close>

datatype package_entry = ProductRef | PackageValue Package

record Document =
  doc_name :: pystr
  doc_namespace :: pystr
  doc_creators :: "pystr list"
  doc_created :: "pystr option"
  doc_describes :: "pystr option"
  doc_packages :: "package_entry list"
  doc_files :: "File list"
  doc_relationships :: "Relationship list"
  doc_external_refs :: "DocumentExternalReference list"

subsection \<open>What the program takes from outside\<close>

text \<open>
  The program reads the Unicode tables (\<open>str.isalnum\<close> and \<open>str.lower\<close> beyond ASCII),
  \<open>hashlib.sha1\<close>, the file system, the protobuf text parser, the clock, and constants
  of \<open>sbom_data\<close> and of \<open>metadata_file_pb2\<close>. They are the fields of a record that every
  function takes; no theorem assumes anything about them.
  \<^item> \<open>unicode_isalnum c\<close>: \<open>c.isalnum()\<close> for a code point from 128 on;
  \<^item> \<open>unicode_lower s\<close>: \<open>s.lower()\<close> for a string with a code point from 128 on;
  \<^item> \<open>sha1_hexdigest bs\<close>: the hexadecimal SHA-1 digest of the bytes \<open>bs\<close>;
  \<^item> \<open>read_bytes p\<close>: the content of the file \<open>p\<close>, \<open>None\<close> when \<open>open\<close> raises;
  \<^item> \<open>parse_metadata p\<close>: the file \<open>p\<close> read and parsed by \<open>text_format.Parse\<close>,
    \<open>None\<close> when that raises;
  \<^item> \<open>utc_now\<close>: the formatted time of the run.
\<close>

record platform =
  unicode_isalnum :: "nat \<Rightarrow> bool"
  unicode_lower :: "pystr \<Rightarrow> pystr"
  sha1_hexdigest :: "nat list \<Rightarrow> pystr"
  path_exists :: "pystr \<Rightarrow> bool"
  path_islink :: "pystr \<Rightarrow> bool"
  path_isfile :: "pystr \<Rightarrow> bool"
  readlink :: "pystr \<Rightarrow> pystr"
  read_bytes :: "pystr \<Rightarrow> nat list option"
  parse_metadata :: "pystr \<Rightarrow> Metadata option"
  utc_now :: pystr
  VALUE_NONE :: pystr
  VALUE_NOASSERTION :: pystr
  SPDXID_PRODUCT :: pystr
  SPDXID_PLATFORM :: pystr
  PACKAGE_NAME_PRODUCT :: pystr
  PACKAGE_NAME_PLATFORM :: pystr
  URL_Type_HOMEPAGE :: int

text \<open>The command line: the options the run without \<open>--unbundled\<close> reads.\<close>

record args =
  product_out_dir :: pystr
  build_version :: pystr
  product_mfr :: pystr

subsection \<open>The report and the state of a run\<close>

text \<open>The report is a dictionary with six fixed keys, each holding a list of messages.\<close>

record Report =
  ISSUE_NO_METADATA :: "pystr list"
  ISSUE_NO_METADATA_FILE :: "pystr list"
  ISSUE_METADATA_FILE_INCOMPLETE :: "pystr list"
  ISSUE_UNKNOWN_SECURITY_TAG_TYPE :: "pystr list"
  ISSUE_INSTALLED_FILE_NOT_EXIST :: "pystr list"
  INFO_METADATA_FOUND_FOR_PACKAGE :: "pystr list"

text \<open>
  The objects the main pass changes: the document, the product package, the report and
  the global dictionary \<open>metadata_file_protos\<close>. \<open>parse_log\<close> records every call of the
  protobuf parser, with the path of the file it read.
\<close>

record state =
  doc :: Document
  product_package :: Package
  report :: Report
  metadata_file_protos :: "pystr \<rightharpoonup> Metadata"
  parse_log :: "pystr list"

section \<open>The program\<close>

subsection \<open>Constants\<close>

definition PKG_SOURCE :: pystr where "PKG_SOURCE = str ''SOURCE''"
definition PKG_UPSTREAM :: pystr where "PKG_UPSTREAM = str ''UPSTREAM''"
definition PKG_PREBUILT :: pystr where "PKG_PREBUILT = str ''PREBUILT''"
definition NVD_CPE23 :: pystr where "NVD_CPE23 = str ''NVD-CPE2.3:''"
definition DQUOTE :: nat where "DQUOTE = 34"

text \<open>Sequencing of calls that may raise: the first exception ends the computation.\<close>

definition bind_err :: "error + 'a \<Rightarrow> ('a \<Rightarrow> error + 'b) \<Rightarrow> error + 'b" where
  "bind_err m f = (case m of Inl e \<Rightarrow> Inl e | Inr x \<Rightarrow> f x)"

subsection \<open>\<open>encode_for_spdxid\<close>, \<open>new_package_id\<close>, \<open>new_file_id\<close>\<close>

definition isalnum :: "platform \<Rightarrow> nat \<Rightarrow> bool" where
  "isalnum P c = (if c < 128 then ascii_isalnum c else unicode_isalnum P c)"

text \<open>The loop of \<open>encode_for_spdxid\<close>, with \<open>result\<close> as its accumulator.\<close>

fun encode_loop :: "platform \<Rightarrow> pystr \<Rightarrow> pystr \<Rightarrow> error + pystr" where
  "encode_loop P [] result = Inr result"
| "encode_loop P (c # s) result =
     (if isalnum P c \<or> c \<in> set (str ''.-'') then encode_loop P s (result @ [c])
      else if c \<in> set (str ''_@/'') then encode_loop P s (result @ str ''-'')
      else (case utf8_char c of
              Inl e \<Rightarrow> Inl e
            | Inr bs \<Rightarrow> encode_loop P s (result @ str ''0x'' @ hex_bytes bs)))"

definition encode_for_spdxid :: "platform \<Rightarrow> pystr \<Rightarrow> error + pystr" where
  "encode_for_spdxid P s = bind_err (encode_loop P s []) (\<lambda>result. Inr (lstrip result DASH))"

definition new_package_id :: "platform \<Rightarrow> pystr \<Rightarrow> pystr \<Rightarrow> error + pystr" where
  "new_package_id P package_name type =
     bind_err (encode_for_spdxid P package_name)
       (\<lambda>enc. Inr (str ''SPDXRef-'' @ type @ str ''-'' @ enc))"

definition new_file_id :: "platform \<Rightarrow> pystr \<Rightarrow> error + pystr" where
  "new_file_id P file_path =
     bind_err (encode_for_spdxid P file_path) (\<lambda>enc. Inr (str ''SPDXRef-'' @ enc))"

subsection \<open>\<open>checksum\<close>\<close>

definition checksum :: "platform \<Rightarrow> args \<Rightarrow> pystr \<Rightarrow> error + pystr" where
  "checksum P A file_path =
     (let fp = product_out_dir A @ str ''/'' @ file_path
      in if path_islink P fp
         then bind_err (utf8_encode (readlink P fp))
                (\<lambda>bs. Inr (str ''SHA1: '' @ sha1_hexdigest P bs))
         else (case read_bytes P fp of
                 None \<Rightarrow> Inl OSError
               | Some bs \<Rightarrow> Inr (str ''SHA1: '' @ sha1_hexdigest P bs)))"

subsection \<open>Classification\<close>

definition soong_prebuilt_module_types :: "pystr list" where
  "soong_prebuilt_module_types =
     [str ''android_app_import'', str ''android_library_import'', str ''cc_prebuilt_binary'',
      str ''cc_prebuilt_library'', str ''cc_prebuilt_library_headers'',
      str ''cc_prebuilt_library_shared'', str ''cc_prebuilt_library_static'',
      str ''cc_prebuilt_object'', str ''dex_import'', str ''java_import'',
      str ''java_sdk_library_import'', str ''java_system_modules_import'',
      str ''libclang_rt_prebuilt_library_static'', str ''libclang_rt_prebuilt_library_shared'',
      str ''llvm_prebuilt_library_static'', str ''ndk_prebuilt_object'',
      str ''ndk_prebuilt_shared_stl'', str ''nkd_prebuilt_static_stl'', str ''prebuilt_apex'',
      str ''prebuilt_bootclasspath_fragment'', str ''prebuilt_dsp'', str ''prebuilt_firmware'',
      str ''prebuilt_kernel_modules'', str ''prebuilt_rfsa'', str ''prebuilt_root'',
      str ''rust_prebuilt_dylib'', str ''rust_prebuilt_library'', str ''rust_prebuilt_rlib'',
      str ''vndk_prebuilt_shared'']"

definition is_soong_prebuilt_module :: "installed_file_metadata \<Rightarrow> bool" where
  "is_soong_prebuilt_module file_metadata =
     (truthy (soong_module_type file_metadata) \<and>
      List.member soong_prebuilt_module_types (soong_module_type file_metadata))"

definition is_prebuilt_package :: "installed_file_metadata \<Rightarrow> bool" where
  "is_prebuilt_package file_metadata =
     (if truthy (module_path file_metadata)
      then (startswith (module_path file_metadata) (str ''prebuilts/'') \<or>
            is_soong_prebuilt_module file_metadata \<or>
            truthy (is_prebuilt_make_module file_metadata))
      else if truthy (kernel_module_copy_files file_metadata) \<and>
              \<not> startswith (kernel_module_copy_files file_metadata) (str ''ANDROID-GEN:'')
      then True
      else False)"

definition is_source_package :: "installed_file_metadata \<Rightarrow> bool" where
  "is_source_package file_metadata =
     (startswith (module_path file_metadata) (str ''external/'') \<and>
      \<not> is_prebuilt_package file_metadata)"

subsection \<open>\<open>get_source_package_info\<close>\<close>

definition ascii_lower :: "nat \<Rightarrow> nat" where
  "ascii_lower c = (if 65 \<le> c \<and> c \<le> 90 then c + 32 else c)"

definition lower :: "platform \<Rightarrow> pystr \<Rightarrow> pystr" where
  "lower P s = (if list_all (\<lambda>c. c < 128) s then map ascii_lower s else unicode_lower P s)"

text \<open>The loop over the security tags, with \<open>external_refs\<close> as its accumulator.\<close>

fun security_refs ::
  "platform \<Rightarrow> pystr list \<Rightarrow> PackageExternalRef list \<Rightarrow> PackageExternalRef list" where
  "security_refs P [] external_refs = external_refs"
| "security_refs P (tag # tags) external_refs =
     (if startswith (lower P tag) (lower P (NVD_CPE23 @ str ''cpe:2.3:''))
      then security_refs P tags
             (external_refs @
              [\<lparr>ref_category = SECURITY, ref_type = cpe23Type,
                ref_locator = removeprefix tag NVD_CPE23\<rparr>])
      else if startswith (lower P tag) (lower P (NVD_CPE23 @ str ''cpe:/''))
      then security_refs P tags
             (external_refs @
              [\<lparr>ref_category = SECURITY, ref_type = cpe22Type,
                ref_locator = removeprefix tag NVD_CPE23\<rparr>])
      else security_refs P tags external_refs)"

text \<open>\<open>metadata_file_protos[metadata_file_path]\<close>: a missing key raises \<open>KeyError\<close>.\<close>

definition lookup_proto :: "(pystr \<rightharpoonup> Metadata) \<Rightarrow> pystr \<Rightarrow> error + Metadata" where
  "lookup_proto protos metadata_file_path =
     (case protos metadata_file_path of None \<Rightarrow> Inl KeyError | Some m \<Rightarrow> Inr m)"

definition get_source_package_info ::
  "platform \<Rightarrow> (pystr \<rightharpoonup> Metadata) \<Rightarrow> installed_file_metadata \<Rightarrow> pystr \<Rightarrow>
   error + (pystr \<times> PackageExternalRef list)" where
  "get_source_package_info P protos file_metadata metadata_file_path =
     (if \<not> truthy metadata_file_path then Inr (module_path file_metadata, [])
      else bind_err (lookup_proto protos metadata_file_path)
        (\<lambda>metadata_proto.
           let external_refs =
                 security_refs P (tp_security_tag (third_party metadata_proto)) []
           in if truthy (md_name metadata_proto)
              then Inr (md_name metadata_proto, external_refs)
              else Inr (basename metadata_file_path, external_refs)))"

subsection \<open>\<open>get_prebuilt_package_name\<close>\<close>

text \<open>
  The variable \<open>name\<close> after the chain of branches: \<open>None\<close> when no branch assigned it.
\<close>

definition prebuilt_name_binding ::
  "(pystr \<rightharpoonup> Metadata) \<Rightarrow> installed_file_metadata \<Rightarrow> pystr \<Rightarrow> error + pystr option" where
  "prebuilt_name_binding protos file_metadata metadata_file_path =
     (if truthy metadata_file_path
      then bind_err (lookup_proto protos metadata_file_path)
             (\<lambda>metadata_proto.
                if truthy (md_name metadata_proto) then Inr (Some (md_name metadata_proto))
                else Inr (Some metadata_file_path))
      else if truthy (module_path file_metadata) then Inr (Some (module_path file_metadata))
      else if truthy (kernel_module_copy_files file_metadata)
      then Inr (Some (dirname (split_first (kernel_module_copy_files file_metadata) COLON)))
      else Inr None)"

text \<open>\<open>name.removeprefix\<close> on \<open>None\<close> raises \<open>AttributeError\<close>.\<close>

definition get_prebuilt_package_name ::
  "(pystr \<rightharpoonup> Metadata) \<Rightarrow> installed_file_metadata \<Rightarrow> pystr \<Rightarrow> error + pystr" where
  "get_prebuilt_package_name protos file_metadata metadata_file_path =
     bind_err (prebuilt_name_binding protos file_metadata metadata_file_path)
       (\<lambda>name. case name of
                  None \<Rightarrow> Inl AttributeError
                | Some n \<Rightarrow> Inr (replace_char (removeprefix n (str ''prebuilts/'')) SLASH DASH))"

subsection \<open>\<open>get_metadata_file_path\<close>\<close>

text \<open>
  The \<open>while\<close> loop walks up the directories. \<open>dirname\<close> of a path made of slashes only is
  that path, so the loop does not end from a path such as \<open>/\<close> with no METADATA file;
  the value \<open>None\<close> stands for a loop that does not end.
\<close>

partial_function (option) metadata_path_loop :: "platform \<Rightarrow> pystr \<Rightarrow> pystr option" where
  "metadata_path_loop P metadata_path =
     (if truthy metadata_path \<and> \<not> path_exists P (metadata_path @ str ''/METADATA'')
      then metadata_path_loop P (dirname metadata_path)
      else Some metadata_path)"

declare metadata_path_loop.simps [code]

definition get_metadata_file_path :: "platform \<Rightarrow> installed_file_metadata \<Rightarrow> pystr option" where
  "get_metadata_file_path P file_metadata =
     metadata_path_loop P
       (if truthy (module_path file_metadata) then module_path file_metadata
        else if truthy (kernel_module_copy_files file_metadata)
        then dirname (split_first (kernel_module_copy_files file_metadata) COLON)
        else [])"

subsection \<open>Version, homepage and download location\<close>

definition get_package_version ::
  "(pystr \<rightharpoonup> Metadata) \<Rightarrow> pystr \<Rightarrow> error + pystr option" where
  "get_package_version protos metadata_file_path =
     (if \<not> truthy metadata_file_path then Inr None
      else bind_err (lookup_proto protos metadata_file_path)
             (\<lambda>metadata_proto. Inr (Some (tp_version (third_party metadata_proto)))))"

definition get_package_homepage ::
  "platform \<Rightarrow> (pystr \<rightharpoonup> Metadata) \<Rightarrow> pystr \<Rightarrow> error + pystr option" where
  "get_package_homepage P protos metadata_file_path =
     (if \<not> truthy metadata_file_path then Inr None
      else bind_err (lookup_proto protos metadata_file_path)
             (\<lambda>metadata_proto.
                if truthy (tp_homepage (third_party metadata_proto))
                then Inr (Some (tp_homepage (third_party metadata_proto)))
                else Inr (map_option url_value
                            (find (\<lambda>url. url_type url = URL_Type_HOMEPAGE P)
                               (tp_url (third_party metadata_proto))))))"

definition get_package_download_location ::
  "platform \<Rightarrow> (pystr \<rightharpoonup> Metadata) \<Rightarrow> pystr \<Rightarrow> error + pystr option" where
  "get_package_download_location P protos metadata_file_path =
     (if \<not> truthy metadata_file_path then Inr None
      else bind_err (lookup_proto protos metadata_file_path)
             (\<lambda>metadata_proto.
                case sort_key url_type (tp_url (third_party metadata_proto)) of
                  [] \<Rightarrow> Inr None
                | u0 # rest \<Rightarrow>
                    if url_type u0 \<noteq> URL_Type_HOMEPAGE P then Inr (Some (url_value u0))
                    else (case rest of [] \<Rightarrow> Inr None | u1 # _ \<Rightarrow> Inr (Some (url_value u1)))))"

subsection \<open>\<open>get_sbom_fragments\<close>\<close>

text \<open>
  The external reference and the relationship of a prebuilt package whose METADATA file
  names an external SBOM (the innermost part of the prebuilt branch).
\<close>

definition prebuilt_sbom_ref ::
  "platform \<Rightarrow> (pystr \<rightharpoonup> Metadata) \<Rightarrow> pystr \<Rightarrow> pystr \<Rightarrow> pystr \<Rightarrow>
   error + (DocumentExternalReference option \<times> Relationship list)" where
  "prebuilt_sbom_ref P protos metadata_file_path name prebuilt_package_id =
     (if truthy metadata_file_path
      then bind_err (lookup_proto protos metadata_file_path)
        (\<lambda>metadata_proto.
           case tp_sbom_ref (third_party metadata_proto) of
             None \<Rightarrow> Inr (None, [])
           | Some sbom_ref \<Rightarrow>
               if truthy (sbom_url sbom_ref) \<and> truthy (sbom_checksum sbom_ref) \<and>
                  truthy (sbom_element_id sbom_ref)
               then bind_err (encode_for_spdxid P name)
                 (\<lambda>enc.
                    let doc_ref_id = str ''DocumentRef-'' @ PKG_UPSTREAM @ str ''-'' @ enc
                    in Inr (Some \<lparr>docref_id = doc_ref_id, docref_uri = sbom_url sbom_ref,
                                   docref_checksum = sbom_checksum sbom_ref\<rparr>,
                            [\<lparr>id1 = prebuilt_package_id, relationship = VARIANT_OF,
                              id2 = doc_ref_id @ str '':'' @ sbom_element_id sbom_ref\<rparr>]))
               else Inr (None, []))
      else Inr (None, []))"

definition get_sbom_fragments ::
  "platform \<Rightarrow> args \<Rightarrow> (pystr \<rightharpoonup> Metadata) \<Rightarrow> installed_file_metadata \<Rightarrow> pystr \<Rightarrow>
   error + (DocumentExternalReference option \<times> Package list \<times> Relationship list)" where
  "get_sbom_fragments P A protos installed_file_metadata metadata_file_path =
     bind_err (get_package_homepage P protos metadata_file_path) (\<lambda>homepage.
     bind_err (get_package_version protos metadata_file_path) (\<lambda>version.
     bind_err (get_package_download_location P protos metadata_file_path) (\<lambda>download_location.
       if is_source_package installed_file_metadata
       then
         bind_err (get_source_package_info P protos installed_file_metadata metadata_file_path)
           (\<lambda>(name, external_refs).
         bind_err (new_package_id P name PKG_SOURCE) (\<lambda>source_package_id.
           let source_package =
                 \<lparr>pkg_id = source_package_id, pkg_name = name,
                  pkg_version = Some (build_version A),
                  pkg_supplier = Some (str ''Organization: '' @ product_mfr A),
                  pkg_download_location = Some (VALUE_NONE P),
                  pkg_external_refs = external_refs, pkg_files_analyzed = False,
                  pkg_verification_code = None, pkg_file_ids = []\<rparr>
           in
         bind_err (new_package_id P name PKG_UPSTREAM) (\<lambda>upstream_package_id.
           let upstream_package =
                 \<lparr>pkg_id = upstream_package_id, pkg_name = name, pkg_version = version,
                  pkg_supplier =
                    (case homepage of
                       None \<Rightarrow> Some (VALUE_NOASSERTION P)
                     | Some h \<Rightarrow>
                         if truthy h then Some (str ''Organization: '' @ h)
                         else Some (VALUE_NOASSERTION P)),
                  pkg_download_location = download_location,
                  pkg_external_refs = [], pkg_files_analyzed = False,
                  pkg_verification_code = None, pkg_file_ids = []\<rparr>
           in Inr (None, [source_package, upstream_package],
                   [\<lparr>id1 = source_package_id, relationship = VARIANT_OF,
                     id2 = upstream_package_id\<rparr>]))))
       else if is_prebuilt_package installed_file_metadata
       then
         bind_err (get_prebuilt_package_name protos installed_file_metadata metadata_file_path)
           (\<lambda>name.
         bind_err (new_package_id P name PKG_PREBUILT) (\<lambda>prebuilt_package_id.
           let prebuilt_package =
                 \<lparr>pkg_id = prebuilt_package_id, pkg_name = name,
                  pkg_version = Some (build_version A),
                  pkg_supplier = Some (str ''Organization: '' @ product_mfr A),
                  pkg_download_location = Some (VALUE_NONE P),
                  pkg_external_refs = [], pkg_files_analyzed = False,
                  pkg_verification_code = None, pkg_file_ids = []\<rparr>
           in
         bind_err (prebuilt_sbom_ref P protos metadata_file_path name prebuilt_package_id)
           (\<lambda>(external_doc_ref, relationships).
              Inr (external_doc_ref, [prebuilt_package], relationships))))
       else Inr (None, [], []))))"

subsection \<open>\<open>generate_package_verification_code\<close>\<close>

definition generate_package_verification_code :: "platform \<Rightarrow> File list \<Rightarrow> error + pystr" where
  "generate_package_verification_code P files =
     (let checksums = sort (map file_checksum files)
      in bind_err (utf8_encode (concat checksums)) (\<lambda>bs. Inr (sha1_hexdigest P bs)))"

subsection \<open>\<open>installed_file_has_metadata\<close>\<close>

definition installed_file_has_metadata ::
  "installed_file_metadata \<Rightarrow> Report \<Rightarrow> bool \<times> Report" where
  "installed_file_has_metadata installed_file_metadata rep =
     (if \<not> truthy (module_path installed_file_metadata) \<and>
         \<not> truthy (product_copy_files installed_file_metadata) \<and>
         \<not> truthy (kernel_module_copy_files installed_file_metadata) \<and>
         \<not> truthy (is_platform_generated installed_file_metadata) \<and>
         \<not> endswith (installed_file installed_file_metadata) (str ''.fsv_meta'')
      then (False,
            rep\<lparr>ISSUE_NO_METADATA :=
                  ISSUE_NO_METADATA rep @ [installed_file installed_file_metadata]\<rparr>)
      else (True, rep))"

subsection \<open>\<open>report_metadata_file\<close>\<close>

text \<open>The loop over the security tags of a METADATA file seen for the first time.\<close>

fun report_security_tags :: "pystr \<Rightarrow> pystr list \<Rightarrow> Report \<Rightarrow> Report" where
  "report_security_tags metadata_file_path [] rep = rep"
| "report_security_tags metadata_file_path (tag # tags) rep =
     report_security_tags metadata_file_path tags
       (if \<not> startswith tag NVD_CPE23
        then rep\<lparr>ISSUE_UNKNOWN_SECURITY_TAG_TYPE :=
                   ISSUE_UNKNOWN_SECURITY_TAG_TYPE rep @
                   [str ''Unknown security tag type: '' @ tag @ str '' in '' @
                    metadata_file_path @ str ''/METADATA'']\<rparr>
        else rep)"

text \<open>
  The file is opened and parsed before the dictionary is looked at: every call with a
  path parses, and \<open>parse_log\<close> grows by one entry.
\<close>

definition report_metadata_file ::
  "platform \<Rightarrow> pystr \<Rightarrow> installed_file_metadata \<Rightarrow> state \<Rightarrow> error + state" where
  "report_metadata_file P metadata_file_path installed_file_metadata st =
     (if truthy metadata_file_path
      then
        (let rep1 = (report st)\<lparr>INFO_METADATA_FOUND_FOR_PACKAGE :=
                       INFO_METADATA_FOUND_FOR_PACKAGE (report st) @
                       [str ''installed_file: '' @ installed_file installed_file_metadata @
                        str '', module_path: '' @ module_path installed_file_metadata @
                        str '', METADATA file: '' @ metadata_file_path @ str ''/METADATA'']\<rparr>;
             st1 = st\<lparr>report := rep1,
                      parse_log := parse_log st @ [metadata_file_path @ str ''/METADATA'']\<rparr>
         in case parse_metadata P (metadata_file_path @ str ''/METADATA'') of
              None \<Rightarrow> Inl ParseError
            | Some package_metadata \<Rightarrow>
                if metadata_file_protos st1 metadata_file_path = None
                then
                  (let rep2 =
                         (if \<not> truthy (md_name package_metadata)
                          then rep1\<lparr>ISSUE_METADATA_FILE_INCOMPLETE :=
                                 ISSUE_METADATA_FILE_INCOMPLETE rep1 @
                                 [metadata_file_path @ str ''/METADATA does not has '' @
                                  [DQUOTE] @ str ''name'' @ [DQUOTE]]\<rparr>
                          else rep1);
                       rep3 =
                         (if \<not> truthy (tp_version (third_party package_metadata))
                          then rep2\<lparr>ISSUE_METADATA_FILE_INCOMPLETE :=
                                 ISSUE_METADATA_FILE_INCOMPLETE rep2 @
                                 [metadata_file_path @ str ''/METADATA does not has '' @
                                  [DQUOTE] @ str ''third_party.version'' @ [DQUOTE]]\<rparr>
                          else rep2);
                       rep4 = report_security_tags metadata_file_path
                                (tp_security_tag (third_party package_metadata)) rep3
                   in Inr (st1\<lparr>metadata_file_protos :=
                                 (metadata_file_protos st1)
                                   (metadata_file_path \<mapsto> package_metadata),
                               report := rep4\<rparr>))
                else Inr st1)
      else
        Inr (st\<lparr>report := (report st)\<lparr>ISSUE_NO_METADATA_FILE :=
                   ISSUE_NO_METADATA_FILE (report st) @
                   [str ''installed_file: '' @ installed_file installed_file_metadata @
                    str '', module_path: '' @ module_path installed_file_metadata]\<rparr>\<rparr>))"

subsection \<open>The methods of \<open>Document\<close>\<close>

definition entry_id :: "Package \<Rightarrow> package_entry \<Rightarrow> pystr" where
  "entry_id product e = (case e of ProductRef \<Rightarrow> pkg_id product | PackageValue p \<Rightarrow> pkg_id p)"

text \<open>
  Modelled from the spec: \<open>Document.add_package\<close>, which is not among the sources. It
  keeps the first package of an identifier: a package whose identifier is already in the
  document is not added; any other is put at the end of the list.
\<close>

definition add_package :: "Package \<Rightarrow> Document \<Rightarrow> Package \<Rightarrow> Document" where
  "add_package product d package =
     (if List.member (map (entry_id product) (doc_packages d)) (pkg_id package) then d
      else d\<lparr>doc_packages := doc_packages d @ [PackageValue package]\<rparr>)"

text \<open>
  Modelled from the spec: \<open>Document.add_relationship\<close> and \<open>Document.add_external_ref\<close>,
  which are not among the sources. They put the element at the end of their list.
\<close>

definition add_relationship :: "Document \<Rightarrow> Relationship \<Rightarrow> Document" where
  "add_relationship d rel = d\<lparr>doc_relationships := doc_relationships d @ [rel]\<rparr>"

definition add_external_ref :: "Document \<Rightarrow> DocumentExternalReference \<Rightarrow> Document" where
  "add_external_ref d external_ref = d\<lparr>doc_external_refs := doc_external_refs d @ [external_ref]\<rparr>"

subsection \<open>The body of the loop of \<open>main\<close>\<close>

text \<open>
  The chain of \<open>elif\<close> branches that attach a file to the platform package; \<open>None\<close> when
  the chain ends with no branch taken.
\<close>

datatype platform_branch =
    ModulePathOrPlatformGenerated
  | ProductCopyFiles
  | FsvMeta
  | KernelModuleAndroidGen

definition platform_branch_of :: "installed_file_metadata \<Rightarrow> platform_branch option" where
  "platform_branch_of installed_file_metadata =
     (if truthy (module_path installed_file_metadata) \<or>
         truthy (is_platform_generated installed_file_metadata)
      then Some ModulePathOrPlatformGenerated
      else if truthy (product_copy_files installed_file_metadata) then Some ProductCopyFiles
      else if endswith (installed_file installed_file_metadata) (str ''.fsv_meta'')
      then Some FsvMeta
      else if startswith (kernel_module_copy_files installed_file_metadata) (str ''ANDROID-GEN'')
      then Some KernelModuleAndroidGen
      else None)"

text \<open>The fragments of a source or prebuilt package go into the document.\<close>

definition add_fragments ::
  "pystr \<Rightarrow> DocumentExternalReference option \<times> Package list \<times> Relationship list \<Rightarrow>
   state \<Rightarrow> state" where
  "add_fragments fid fragments st =
     (case fragments of (external_doc_ref, pkgs, rels) \<Rightarrow>
        (case pkgs of
           [] \<Rightarrow> st
         | p0 # _ \<Rightarrow>
             (let d1 = (case external_doc_ref of
                          None \<Rightarrow> doc st
                        | Some r \<Rightarrow> add_external_ref (doc st) r);
                  d2 = foldl (add_package (product_package st)) d1 pkgs;
                  d3 = foldl add_relationship d2 rels;
                  fork_package_id = pkg_id p0
              in st\<lparr>doc := add_relationship d3
                             \<lparr>id1 = fid, relationship = GENERATED_FROM,
                              id2 = fork_package_id\<rparr>\<rparr>)))"

text \<open>
  The second half of the body: the file, already in the document, is attached to the
  package it comes from.
\<close>

definition attribute_file ::
  "platform \<Rightarrow> args \<Rightarrow> installed_file_metadata \<Rightarrow> pystr \<Rightarrow> state \<Rightarrow> error + state" where
  "attribute_file P A installed_file_metadata fid st =
     (if is_source_package installed_file_metadata \<or> is_prebuilt_package installed_file_metadata
      then
        (case get_metadata_file_path P installed_file_metadata of
           None \<Rightarrow> Inl NonTermination
         | Some metadata_file_path \<Rightarrow>
             bind_err (report_metadata_file P metadata_file_path installed_file_metadata st)
               (\<lambda>st1.
             bind_err (get_sbom_fragments P A (metadata_file_protos st1)
                         installed_file_metadata metadata_file_path)
               (\<lambda>fragments. Inr (add_fragments fid fragments st1))))
      else
        (case platform_branch_of installed_file_metadata of
           Some _ \<Rightarrow>
             Inr (st\<lparr>doc := add_relationship (doc st)
                              \<lparr>id1 = fid, relationship = GENERATED_FROM,
                               id2 = SPDXID_PLATFORM P\<rparr>\<rparr>)
         | None \<Rightarrow> Inr st))"

text \<open>The whole body, for one row.\<close>

definition process_record ::
  "platform \<Rightarrow> args \<Rightarrow> installed_file_metadata \<Rightarrow> state \<Rightarrow> error + state" where
  "process_record P A installed_file_metadata st =
     (case installed_file_has_metadata installed_file_metadata (report st) of
        (has_metadata, rep) \<Rightarrow>
          if \<not> has_metadata then Inr (st\<lparr>report := rep\<rparr>)
          else
            (let file_path = product_out_dir A @ str ''/'' @
                             installed_file installed_file_metadata
             in if \<not> (path_islink P file_path \<or> path_isfile P file_path)
                then Inr (st\<lparr>report := rep\<lparr>ISSUE_INSTALLED_FILE_NOT_EXIST :=
                            ISSUE_INSTALLED_FILE_NOT_EXIST rep @
                            [installed_file installed_file_metadata]\<rparr>\<rparr>)
                else
                  bind_err (new_file_id P (installed_file installed_file_metadata)) (\<lambda>fid.
                  bind_err (checksum P A (installed_file installed_file_metadata)) (\<lambda>cs.
                    attribute_file P A installed_file_metadata fid
                      (st\<lparr>report := rep,
                          doc := (doc st)\<lparr>doc_files := doc_files (doc st) @
                                   [\<lparr>file_id = fid,
                                     file_name = installed_file installed_file_metadata,
                                     file_checksum = cs\<rparr>]\<rparr>,
                          product_package := (product_package st)\<lparr>pkg_file_ids :=
                                   pkg_file_ids (product_package st) @ [fid]\<rparr>\<rparr>)))))"

subsection \<open>\<open>main\<close>\<close>

fun main_loop ::
  "platform \<Rightarrow> args \<Rightarrow> installed_file_metadata list \<Rightarrow> state \<Rightarrow> error + state" where
  "main_loop P A [] st = Inr st"
| "main_loop P A (installed_file_metadata # rest) st =
     (case process_record P A installed_file_metadata st of
        Inl e \<Rightarrow> Inl e
      | Inr st' \<Rightarrow> main_loop P A rest st')"

definition initial_state :: "platform \<Rightarrow> args \<Rightarrow> state" where
  "initial_state P A =
     \<lparr>doc =
        \<lparr>doc_name = build_version A,
         doc_namespace = str ''https://www.google.com/sbom/spdx/android/'' @ build_version A,
         doc_creators = [str ''Organization: '' @ product_mfr A],
         doc_created = None,
         doc_describes = None,
         doc_packages =
           [ProductRef,
            PackageValue
              \<lparr>pkg_id = SPDXID_PLATFORM P, pkg_name = PACKAGE_NAME_PLATFORM P,
               pkg_version = Some (build_version A),
               pkg_supplier = Some (str ''Organization: '' @ product_mfr A),
               pkg_download_location = Some (VALUE_NONE P),
               pkg_external_refs = [], pkg_files_analyzed = False,
               pkg_verification_code = None, pkg_file_ids = []\<rparr>],
         doc_files = [],
         doc_relationships = [],
         doc_external_refs = []\<rparr>,
      product_package =
        \<lparr>pkg_id = SPDXID_PRODUCT P, pkg_name = PACKAGE_NAME_PRODUCT P,
         pkg_version = Some (build_version A),
         pkg_supplier = Some (str ''Organization: '' @ product_mfr A),
         pkg_download_location = Some (VALUE_NONE P),
         pkg_external_refs = [], pkg_files_analyzed = True,
         pkg_verification_code = None, pkg_file_ids = []\<rparr>,
      report =
        \<lparr>ISSUE_NO_METADATA = [], ISSUE_NO_METADATA_FILE = [],
         ISSUE_METADATA_FILE_INCOMPLETE = [], ISSUE_UNKNOWN_SECURITY_TAG_TYPE = [],
         ISSUE_INSTALLED_FILE_NOT_EXIST = [], INFO_METADATA_FOUND_FOR_PACKAGE = []\<rparr>,
      metadata_file_protos = Map.empty,
      parse_log = []\<rparr>"


section \<open>Notions used by the properties\<close>

text \<open>The character set of an SPDX identifier: letters and digits of ASCII, dot and dash.\<close>

definition in_spdxid_charset :: "nat \<Rightarrow> bool" where
  "in_spdxid_charset c = (ascii_isalnum c \<or> c = DOT \<or> c = DASH)"

text \<open>
  A file of the platform package: \<open>main\<close> reaches the platform branches only when the
  file is neither of a source nor of a prebuilt package, and attaches the file when one
  of them is taken.
\<close>

definition is_platform_file :: "installed_file_metadata \<Rightarrow> bool" where
  "is_platform_file installed_file_metadata =
     (\<not> (is_source_package installed_file_metadata \<or>
         is_prebuilt_package installed_file_metadata) \<and>
      platform_branch_of installed_file_metadata \<noteq> None)"

text \<open>What \<open>get_prebuilt_package_name\<close> does to the name it has chosen.\<close>

definition prebuilt_name_of :: "pystr \<Rightarrow> pystr" where
  "prebuilt_name_of n = replace_char (removeprefix n (str ''prebuilts/'')) SLASH DASH"




subsection \<open>A small product, for the examples\<close>

text \<open>
  Two METADATA files: \<open>external/foo\<close> declares a name, a version and a security tag
  written in lower case; \<open>prebuilts/foo\<close> declares nothing. Two installed files are on
  disk. The digest is a stand-in: the hexadecimal text of the bytes.
\<close>

definition demo_metadata :: Metadata where
  "demo_metadata =
     \<lparr>md_name = str ''Foo'',
      third_party =
        \<lparr>tp_version = str ''1.2'', tp_homepage = [], tp_url = [],
         tp_security_tag = [str ''nvd-cpe2.3:cpe:2.3:a:foo:bar:1.0''],
         tp_sbom_ref = None\<rparr>\<rparr>"

definition demo_unnamed_metadata :: Metadata where
  "demo_unnamed_metadata =
     \<lparr>md_name = [],
      third_party =
        \<lparr>tp_version = [], tp_homepage = [], tp_url = [], tp_security_tag = [],
         tp_sbom_ref = None\<rparr>\<rparr>"

definition demo_platform :: platform where
  "demo_platform =
     \<lparr>unicode_isalnum = (\<lambda>c. False),
      unicode_lower = (\<lambda>s. s),
      sha1_hexdigest = hex_bytes,
      path_exists = (\<lambda>p. p = str ''external/foo/METADATA'' \<or> p = str ''prebuilts/foo/METADATA''),
      path_islink = (\<lambda>p. False),
      path_isfile = (\<lambda>p. p = str ''out/system/a'' \<or> p = str ''out/system/b''),
      readlink = (\<lambda>p. []),
      read_bytes = (\<lambda>p. if p = str ''out/system/a'' then Some [1]
                          else if p = str ''out/system/b'' then Some [2] else None),
      parse_metadata = (\<lambda>p. if p = str ''external/foo/METADATA'' then Some demo_metadata
                              else if p = str ''prebuilts/foo/METADATA''
                              then Some demo_unnamed_metadata
                              else None),
      utc_now = str ''2023-01-01T00:00:00Z'',
      VALUE_NONE = str ''NONE'',
      VALUE_NOASSERTION = str ''NOASSERTION'',
      SPDXID_PRODUCT = str ''SPDXRef-PRODUCT'',
      SPDXID_PLATFORM = str ''SPDXRef-PLATFORM'',
      PACKAGE_NAME_PRODUCT = str ''PRODUCT'',
      PACKAGE_NAME_PLATFORM = str ''PLATFORM'',
      URL_Type_HOMEPAGE = 1\<rparr>"

definition demo_args :: args where
  "demo_args =
     \<lparr>product_out_dir = str ''out'', build_version = str ''14'', product_mfr = str ''Acme''\<rparr>"

text \<open>A row with an installed file and a module path, and a row of a kernel module.\<close>

definition demo_row :: "string \<Rightarrow> string \<Rightarrow> installed_file_metadata" where
  "demo_row f m =
     \<lparr>installed_file = str f, module_path = str m, product_copy_files = [],
      kernel_module_copy_files = [], is_platform_generated = [], soong_module_type = [],
      is_prebuilt_make_module = []\<rparr>"

definition demo_kernel_row :: "string \<Rightarrow> string \<Rightarrow> installed_file_metadata" where
  "demo_kernel_row f k =
     \<lparr>installed_file = str f, module_path = [], product_copy_files = [],
      kernel_module_copy_files = str k, is_platform_generated = [], soong_module_type = [],
      is_prebuilt_make_module = []\<rparr>"

definition demo_state :: state where
  "demo_state = initial_state demo_platform demo_args"

text \<open>A relative path: one that does not start with a slash.\<close>

definition is_relative :: "pystr \<Rightarrow> bool" where
  "is_relative p = (\<not> startswith p [SLASH])"

definition demo_protos :: "pystr \<rightharpoonup> Metadata" where
  "demo_protos =
     [str ''external/foo'' \<mapsto> demo_metadata, str ''prebuilts/foo'' \<mapsto> demo_unnamed_metadata]"

definition demo_file_a :: File where
  "demo_file_a =
     \<lparr>file_id = str ''SPDXRef-system-a'', file_name = str ''system/a'',
      file_checksum = str ''SHA1: 02''\<rparr>"

definition demo_file_b :: File where
  "demo_file_b =
     \<lparr>file_id = str ''SPDXRef-system-b'', file_name = str ''system/b'',
      file_checksum = str ''SHA1: 01''\<rparr>"




definition demo_same_package_rows :: "installed_file_metadata list" where
  "demo_same_package_rows =
     [demo_row ''system/a'' ''external/foo'', demo_row ''system/b'' ''external/foo'']"

section \<open>Properties\<close>

subsection \<open>The identifier encoder\<close>

lemma in_charset_passes: "in_spdxid_charset c \<Longrightarrow> isalnum P c \<or> c \<in> set (str ''.-'')"
  by (auto simp: in_spdxid_charset_def isalnum_def ascii_isalnum_def str_def DOT_def DASH_def)

lemma encode_loop_charset:
  "list_all in_spdxid_charset s \<Longrightarrow> encode_loop P s acc = Inr (acc @ s)"
proof (induction s arbitrary: acc)
  case Nil
  then show ?case by simp
next
  case (Cons c s)
  then have "isalnum P c \<or> c \<in> set (str ''.-'')" by (simp add: in_charset_passes)
  with Cons show ?case by simp
qed

lemma encode_charset:
  "list_all in_spdxid_charset s \<Longrightarrow> encode_for_spdxid P s = Inr (lstrip s DASH)"
  by (simp add: encode_for_spdxid_def bind_err_def encode_loop_charset)

lemma lstrip_charset:
  "list_all in_spdxid_charset s \<Longrightarrow> list_all in_spdxid_charset (lstrip s ch)"
  unfolding lstrip_def list_all_iff using set_dropWhileD by fastforce

lemma lstrip_idem: "lstrip (lstrip s ch) ch = lstrip s ch"
  by (simp add: lstrip_def)

lemma lstrip_no_lead: "\<not> startswith (lstrip x DASH) (str ''-'')"
proof (cases "dropWhile (\<lambda>c. c = DASH) x")
  case Nil
  then have "lstrip x DASH = []" by (simp add: lstrip_def)
  then show ?thesis by (simp add: startswith_def str_def)
next
  case (Cons a as)
  then have "a \<noteq> DASH" using hd_dropWhile[of "\<lambda>c. c = DASH" x] by auto
  with Cons show ?thesis by (simp add: lstrip_def startswith_def str_def DASH_def)
qed

lemma encode_loop_total:
  "list_all (\<lambda>c. \<not> (55296 \<le> c \<and> c \<le> 57343)) s \<Longrightarrow> \<exists>r. encode_loop P s acc = Inr r"
proof (induction s arbitrary: acc)
  case Nil
  then show ?case by simp
next
  case (Cons c s)
  then have "\<exists>bs. utf8_char c = Inr bs" by (simp add: utf8_char_def)
  with Cons show ?case by auto
qed

text \<open>
  C6. On a string made of letters and digits of ASCII, dots and dashes only,
  \<open>encode_for_spdxid\<close> returns the string without its leading dashes, and returns that
  result unchanged when applied to it again: the encoder is idempotent there. Whatever
  the input, a result never begins with a dash. A result exists for every string that
  holds no surrogate code point (the only characters whose UTF-8 encoding raises).
\<close>

theorem encode_for_spdxid_idempotent_no_leading_dash:
  "(list_all in_spdxid_charset s \<longrightarrow>
      encode_for_spdxid P s = Inr (lstrip s DASH) \<and>
      encode_for_spdxid P (lstrip s DASH) = Inr (lstrip s DASH)) \<and>
   (\<forall>r. encode_for_spdxid P s = Inr r \<longrightarrow> \<not> startswith r (str ''-'')) \<and>
   (list_all (\<lambda>c. \<not> (55296 \<le> c \<and> c \<le> 57343)) s \<longrightarrow> (\<exists>r. encode_for_spdxid P s = Inr r))"
proof (intro conjI impI allI)
  assume cs: "list_all in_spdxid_charset s"
  show "encode_for_spdxid P s = Inr (lstrip s DASH)" using cs by (rule encode_charset)
  show "encode_for_spdxid P (lstrip s DASH) = Inr (lstrip s DASH)"
    using encode_charset[OF lstrip_charset[OF cs, of DASH], of P] by (simp add: lstrip_idem)
next
  fix r assume "encode_for_spdxid P s = Inr r"
  then obtain x where "r = lstrip x DASH"
    by (auto simp: encode_for_spdxid_def bind_err_def split: sum.splits)
  then show "\<not> startswith r (str ''-'')" by (simp add: lstrip_no_lead)
next
  assume "list_all (\<lambda>c. \<not> (55296 \<le> c \<and> c \<le> 57343)) s"
  then obtain r where "encode_loop P s [] = Inr r" using encode_loop_total by blast
  then show "\<exists>r. encode_for_spdxid P s = Inr r"
    by (simp add: encode_for_spdxid_def bind_err_def)
qed

theorem encode_for_spdxid_idempotent_no_leading_dash_witness:
  "list_all in_spdxid_charset (str ''-a.b'') \<and>
   list_all (\<lambda>c. \<not> (55296 \<le> c \<and> c \<le> 57343)) (str ''-a.b'') \<and>
   encode_for_spdxid demo_platform (str ''-a.b'') = Inr (str ''a.b'') \<and>
   encode_for_spdxid demo_platform (str ''a.b'') = Inr (str ''a.b'') \<and>
   \<not> startswith (str ''a.b'') (str ''-'')"
proof -
  have c: "list_all in_spdxid_charset (str ''-a.b'')" by code_simp
  have n: "list_all (\<lambda>c. \<not> (55296 \<le> c \<and> c \<le> 57343)) (str ''-a.b'')"
    by (simp add: str_def)
  have l: "lstrip (str ''-a.b'') DASH = str ''a.b''" by code_simp
  from encode_for_spdxid_idempotent_no_leading_dash[of "str ''-a.b''" demo_platform] c
  have "encode_for_spdxid demo_platform (str ''-a.b'') = Inr (str ''a.b'') \<and>
        encode_for_spdxid demo_platform (str ''a.b'') = Inr (str ''a.b'') \<and>
        (\<forall>r. encode_for_spdxid demo_platform (str ''-a.b'') = Inr r \<longrightarrow>
             \<not> startswith r (str ''-''))"
    unfolding l by blast
  with c n show ?thesis by blast
qed

subsection \<open>The verification code\<close>

lemma sort_cong_mset: "mset xs = mset ys \<Longrightarrow> sort xs = sort (ys :: 'a::linorder list)"
  by (rule properties_for_sort) simp_all

text \<open>
  C3. \<open>generate_package_verification_code\<close> gives the same result for a list of File
  nodes and for every permutation of it: the checksums are sorted before they are joined
  and hashed. The result is the digest, or the same exception when the joined checksums
  cannot be encoded.
\<close>

theorem verification_code_permutation_invariant:
  "mset files = mset files' \<Longrightarrow>
   generate_package_verification_code P files = generate_package_verification_code P files'"
proof -
  assume "mset files = mset files'"
  then have "mset (map file_checksum files) = mset (map file_checksum files')"
    by (metis mset_map)
  then have "sort (map file_checksum files) = sort (map file_checksum files')"
    by (rule sort_cong_mset)
  then show ?thesis
    by (simp add: generate_package_verification_code_def)
qed

theorem verification_code_permutation_invariant_witness:
  "mset [demo_file_a, demo_file_b] = mset [demo_file_b, demo_file_a] \<and>
   generate_package_verification_code demo_platform [demo_file_a, demo_file_b] =
   generate_package_verification_code demo_platform [demo_file_b, demo_file_a] \<and>
   generate_package_verification_code demo_platform [demo_file_b, demo_file_a] =
     Inr (hex_bytes (map of_char ''SHA1: 01SHA1: 02''))"
proof -
  have h: "mset [demo_file_a, demo_file_b] = mset [demo_file_b, demo_file_a]" by simp
  have e: "generate_package_verification_code demo_platform [demo_file_b, demo_file_a] =
     Inr (hex_bytes (map of_char ''SHA1: 01SHA1: 02''))" by code_simp
  from verification_code_permutation_invariant[OF h, of demo_platform] h e
  show ?thesis by blast
qed

subsection \<open>Classification\<close>

lemma startswith_append: "startswith s (p @ q) \<Longrightarrow> startswith s p"
proof -
  assume a: "startswith s (p @ q)"
  have "take (length p) s = take (length p) (take (length (p @ q)) s)"
    by (simp add: min_def)
  also have "\<dots> = take (length p) (p @ q)"
    using a by (simp add: startswith_def)
  finally show ?thesis by (simp add: startswith_def)
qed

lemma android_gen: "startswith s (str ''ANDROID-GEN:'') \<Longrightarrow> startswith s (str ''ANDROID-GEN'')"
proof -
  have "str ''ANDROID-GEN:'' = str ''ANDROID-GEN'' @ str '':''" by (simp add: str_def)
  then show "startswith s (str ''ANDROID-GEN:'') \<Longrightarrow> startswith s (str ''ANDROID-GEN'')"
    using startswith_append by metis
qed

lemma platform_branch_total:
  assumes hm: "fst (installed_file_has_metadata r rep)"
    and ns: "\<not> is_source_package r" and np: "\<not> is_prebuilt_package r"
  shows "\<exists>b. platform_branch_of r = Some b"
proof (cases "truthy (module_path r) \<or> truthy (is_platform_generated r) \<or>
              truthy (product_copy_files r) \<or> endswith (installed_file r) (str ''.fsv_meta'')")
  case True
  then show ?thesis by (auto simp: platform_branch_of_def)
next
  case False
  with hm have k: "truthy (kernel_module_copy_files r)"
    by (auto simp: installed_file_has_metadata_def split: if_splits)
  from False np k have "startswith (kernel_module_copy_files r) (str ''ANDROID-GEN:'')"
    by (auto simp: is_prebuilt_package_def split: if_splits)
  then have "startswith (kernel_module_copy_files r) (str ''ANDROID-GEN'')" by (rule android_gen)
  with False show ?thesis by (simp add: platform_branch_of_def)
qed

text \<open>
  C2. For a row that passes \<open>installed_file_has_metadata\<close>, exactly one of the three
  categories applies. \<open>is_source_package\<close> and \<open>is_prebuilt_package\<close> are never both
  true, and a row that is neither takes one of the platform branches of \<open>main\<close> (module
  path or platform-generated flag, product copy files, the suffix \<open>.fsv_meta\<close>, or a
  kernel-module copy source that starts with \<open>ANDROID-GEN\<close>); the branches are an
  \<open>if\<close>/\<open>elif\<close> chain, so the one taken is the only one.
\<close>

theorem classification_total_and_exclusive:
  assumes "fst (installed_file_has_metadata r rep)"
  shows "\<not> (is_source_package r \<and> is_prebuilt_package r) \<and>
         (\<not> is_source_package r \<and> \<not> is_prebuilt_package r \<longrightarrow>
            (\<exists>b. platform_branch_of r = Some b)) \<and>
         ((is_source_package r \<and> \<not> is_prebuilt_package r \<and> \<not> is_platform_file r) \<or>
          (is_prebuilt_package r \<and> \<not> is_source_package r \<and> \<not> is_platform_file r) \<or>
          (is_platform_file r \<and> \<not> is_source_package r \<and> \<not> is_prebuilt_package r))"
proof -
  have ex: "\<not> (is_source_package r \<and> is_prebuilt_package r)"
    by (simp add: is_source_package_def)
  have tot: "\<not> is_source_package r \<and> \<not> is_prebuilt_package r \<longrightarrow>
            (\<exists>b. platform_branch_of r = Some b)"
    using assms platform_branch_total by blast
  from ex tot show ?thesis by (auto simp: is_platform_file_def)
qed

theorem classification_total_and_exclusive_witness:
  "fst (installed_file_has_metadata (demo_kernel_row ''vendor/m.ko'' ''ANDROID-GEN:m.ko'')
         (report demo_state)) \<and>
   \<not> is_source_package (demo_kernel_row ''vendor/m.ko'' ''ANDROID-GEN:m.ko'') \<and>
   \<not> is_prebuilt_package (demo_kernel_row ''vendor/m.ko'' ''ANDROID-GEN:m.ko'') \<and>
   is_platform_file (demo_kernel_row ''vendor/m.ko'' ''ANDROID-GEN:m.ko'') \<and>
   platform_branch_of (demo_kernel_row ''vendor/m.ko'' ''ANDROID-GEN:m.ko'') =
     Some KernelModuleAndroidGen"
proof -
  have h: "fst (installed_file_has_metadata (demo_kernel_row ''vendor/m.ko'' ''ANDROID-GEN:m.ko'')
         (report demo_state))" by code_simp
  have s: "\<not> is_source_package (demo_kernel_row ''vendor/m.ko'' ''ANDROID-GEN:m.ko'')"
    by code_simp
  have p: "\<not> is_prebuilt_package (demo_kernel_row ''vendor/m.ko'' ''ANDROID-GEN:m.ko'')"
    by code_simp
  have b: "platform_branch_of (demo_kernel_row ''vendor/m.ko'' ''ANDROID-GEN:m.ko'') =
     Some KernelModuleAndroidGen" by code_simp
  from classification_total_and_exclusive[OF h] h s p b show ?thesis by blast
qed

subsection \<open>The walk to the METADATA file\<close>

text \<open>
  From a relative path, the loop of \<open>get_metadata_file_path\<close> ends: each \<open>dirname\<close> is
  shorter and still relative, down to the empty path. From the path \<open>/\<close> with no
  METADATA file there, it does not end.
\<close>

lemma path_head_prefix: "\<exists>t. p = path_head p @ t \<and> SLASH \<notin> set t"
proof -
  have "rev p = takeWhile (\<lambda>c. c \<noteq> SLASH) (rev p) @ dropWhile (\<lambda>c. c \<noteq> SLASH) (rev p)"
    by simp
  then have "p = rev (dropWhile (\<lambda>c. c \<noteq> SLASH) (rev p)) @
                 rev (takeWhile (\<lambda>c. c \<noteq> SLASH) (rev p))"
    by (metis rev_append rev_rev_ident)
  moreover have "SLASH \<notin> set (rev (takeWhile (\<lambda>c. c \<noteq> SLASH) (rev p)))"
    using set_takeWhileD by fastforce
  ultimately show ?thesis unfolding path_head_def by blast
qed

lemma path_head_last: "path_head p \<noteq> [] \<Longrightarrow> last (path_head p) = SLASH"
proof -
  assume "path_head p \<noteq> []"
  then have ne: "dropWhile (\<lambda>c. c \<noteq> SLASH) (rev p) \<noteq> []" by (simp add: path_head_def)
  then have "hd (dropWhile (\<lambda>c. c \<noteq> SLASH) (rev p)) = SLASH"
    using hd_dropWhile[of "\<lambda>c. c \<noteq> SLASH" "rev p"] by simp
  with ne show ?thesis by (simp add: path_head_def last_rev)
qed

lemma rstrip_shorter: "h \<noteq> [] \<Longrightarrow> last h = SLASH \<Longrightarrow> length (rstrip h SLASH) < length h"
proof -
  assume h: "h \<noteq> []" and l: "last h = SLASH"
  then obtain xs where r: "rev h = SLASH # xs" by (cases "rev h") (auto simp: last_rev)
  then have "dropWhile (\<lambda>c. c = SLASH) (rev h) = dropWhile (\<lambda>c. c = SLASH) xs" by simp
  then have "length (rstrip h SLASH) \<le> length xs"
    by (simp add: rstrip_def length_dropWhile_le)
  moreover have "length h = Suc (length xs)" using r by (metis length_Cons length_rev)
  ultimately show ?thesis by simp
qed

lemma rstrip_prefix: "\<exists>t. h = rstrip h ch @ t"
proof -
  have "rev h = takeWhile (\<lambda>c. c = ch) (rev h) @ dropWhile (\<lambda>c. c = ch) (rev h)" by simp
  then have "h = rev (dropWhile (\<lambda>c. c = ch) (rev h)) @ rev (takeWhile (\<lambda>c. c = ch) (rev h))"
    by (metis rev_append rev_rev_ident)
  then show ?thesis unfolding rstrip_def by blast
qed

lemma relative_prefix: "is_relative (a @ b) \<Longrightarrow> a \<noteq> [] \<Longrightarrow> is_relative a"
  by (cases a) (auto simp: is_relative_def startswith_def)

lemma relative_not_slashes: "is_relative h \<Longrightarrow> h \<noteq> [] \<Longrightarrow> h \<noteq> replicate (length h) SLASH"
  by (cases h) (auto simp: is_relative_def startswith_def)

lemma dirname_relative:
  assumes "is_relative p" and "p \<noteq> []"
  shows "length (dirname p) < length p \<and> is_relative (dirname p)"
proof (cases "path_head p = []")
  case True
  then show ?thesis using assms by (simp add: dirname_def Let_def is_relative_def startswith_def)
next
  case False
  obtain t where t: "p = path_head p @ t" using path_head_prefix by blast
  then have rel: "is_relative (path_head p)" using assms(1) False relative_prefix by metis
  from relative_not_slashes[OF rel False]
  have d: "dirname p = rstrip (path_head p) SLASH" using False by (simp add: dirname_def Let_def)
  have "length (rstrip (path_head p) SLASH) < length (path_head p)"
    using rstrip_shorter[OF False path_head_last[OF False]] .
  moreover have "length (path_head p) \<le> length p" using t by (metis length_append le_add1)
  ultimately have 1: "length (dirname p) < length p" using d by simp
  obtain u where u: "path_head p = rstrip (path_head p) SLASH @ u" using rstrip_prefix by blast
  have 2: "is_relative (dirname p)"
  proof (cases "rstrip (path_head p) SLASH = []")
    case True
    then show ?thesis using d by (simp add: is_relative_def startswith_def)
  next
    case F: False
    from relative_prefix[of "rstrip (path_head p) SLASH" u] u rel F
    show ?thesis using d by simp
  qed
  from 1 2 show ?thesis by simp
qed

lemma metadata_path_loop_returns:
  "is_relative p \<Longrightarrow> \<exists>q. metadata_path_loop P p = Some q"
proof (induction "length p" arbitrary: p rule: less_induct)
  case less
  show ?case
  proof (cases "truthy p \<and> \<not> path_exists P (p @ str ''/METADATA'')")
    case False
    then show ?thesis by (subst metadata_path_loop.simps) auto
  next
    case True
    then have ne: "p \<noteq> []" by (simp add: truthy_def)
    from dirname_relative[OF less.prems ne] less.hyps
    obtain q where "metadata_path_loop P (dirname p) = Some q" by blast
    with True show ?thesis by (subst metadata_path_loop.simps) auto
  qed
qed

lemma dirname_root: "dirname [SLASH] = [SLASH]"
  by (simp add: dirname_def path_head_def Let_def)

lemma metadata_path_loop_root_aux:
  assumes "metadata_path_loop P p = Some q"
  shows "\<not> (p = [SLASH] \<and> \<not> path_exists P ([SLASH] @ str ''/METADATA''))"
proof -
  have "(\<lambda>(P, p) q. \<not> (p = [SLASH] \<and> \<not> path_exists P ([SLASH] @ str ''/METADATA'')))
          (P, p) q"
  proof (rule metadata_path_loop.raw_induct[OF _ assms])
    fix loop :: "platform \<Rightarrow> pystr \<Rightarrow> pystr option" and P' p' q'
    assume ih: "\<And>P p q. loop P p = Some q \<Longrightarrow>
        (\<lambda>(P, p) q. \<not> (p = [SLASH] \<and> \<not> path_exists P ([SLASH] @ str ''/METADATA'')))
          (P, p) q"
      and st: "(if truthy p' \<and> \<not> path_exists P' (p' @ str ''/METADATA'')
                then loop P' (dirname p') else Some p') = Some q'"
    show "(\<lambda>(P, p) q. \<not> (p = [SLASH] \<and> \<not> path_exists P ([SLASH] @ str ''/METADATA'')))
            (P', p') q'"
    proof (clarify)
      assume a: "\<not> path_exists P' ([SLASH] @ str ''/METADATA'')" and b: "p' = [SLASH]"
      then have "loop P' [SLASH] = Some q'" using st dirname_root by (simp add: truthy_def)
      from ih[OF this] a show False by simp
    qed
  qed
  then show ?thesis by simp
qed

lemma metadata_path_loop_root:
  "\<not> path_exists P ([SLASH] @ str ''/METADATA'') \<Longrightarrow> metadata_path_loop P [SLASH] = None"
  using metadata_path_loop_root_aux[of P "[SLASH]"]
  by (cases "metadata_path_loop P [SLASH]") auto

subsection \<open>Rows with no metadata\<close>

text \<open>
  C7. A row with no module path, no product copy files, no kernel-module copy files, no
  platform-generated flag and an installed path that does not end in \<open>.fsv_meta\<close>: the
  loop body only appends the installed file to the list \<open>ISSUE_NO_METADATA\<close> of the
  report. The document (files, packages, relationships), the product package and the
  dictionary of descriptors stay as they were, and the loop goes on with the next row.
\<close>

theorem no_metadata_row_contributes_nothing:
  assumes "\<not> truthy (module_path r)" and "\<not> truthy (product_copy_files r)"
    and "\<not> truthy (kernel_module_copy_files r)" and "\<not> truthy (is_platform_generated r)"
    and "\<not> endswith (installed_file r) (str ''.fsv_meta'')"
  shows "\<exists>st'. process_record P A r st = Inr st' \<and>
           st' = st\<lparr>report := (report st)\<lparr>ISSUE_NO_METADATA :=
                        ISSUE_NO_METADATA (report st) @ [installed_file r]\<rparr>\<rparr> \<and>
           doc st' = doc st \<and> product_package st' = product_package st \<and>
           metadata_file_protos st' = metadata_file_protos st \<and>
           main_loop P A (r # rest) st = main_loop P A rest st'"
  using assms by (simp add: process_record_def installed_file_has_metadata_def)

theorem no_metadata_row_contributes_nothing_witness:
  "\<not> truthy (module_path (demo_row ''system/d'' '''')) \<and>
   \<not> truthy (product_copy_files (demo_row ''system/d'' '''')) \<and>
   \<not> truthy (kernel_module_copy_files (demo_row ''system/d'' '''')) \<and>
   \<not> truthy (is_platform_generated (demo_row ''system/d'' '''')) \<and>
   \<not> endswith (installed_file (demo_row ''system/d'' '''')) (str ''.fsv_meta'') \<and>
   (\<exists>st'. process_record demo_platform demo_args (demo_row ''system/d'' '''') demo_state = Inr st' \<and>
      st' = demo_state\<lparr>report := (report demo_state)\<lparr>ISSUE_NO_METADATA :=
               ISSUE_NO_METADATA (report demo_state) @
               [installed_file (demo_row ''system/d'' '''')]\<rparr>\<rparr> \<and>
      doc st' = doc demo_state \<and> product_package st' = product_package demo_state \<and>
      metadata_file_protos st' = metadata_file_protos demo_state \<and>
      main_loop demo_platform demo_args [demo_row ''system/d'' ''''] demo_state =
        main_loop demo_platform demo_args [] st')"
proof -
  have 1: "\<not> truthy (module_path (demo_row ''system/d'' ''''))" by code_simp
  have 2: "\<not> truthy (product_copy_files (demo_row ''system/d'' ''''))" by code_simp
  have 3: "\<not> truthy (kernel_module_copy_files (demo_row ''system/d'' ''''))" by code_simp
  have 4: "\<not> truthy (is_platform_generated (demo_row ''system/d'' ''''))" by code_simp
  have 5: "\<not> endswith (installed_file (demo_row ''system/d'' '''')) (str ''.fsv_meta'')"
    by code_simp
  from no_metadata_row_contributes_nothing[OF 1 2 3 4 5, of demo_platform demo_args demo_state "[]"]
    1 2 3 4 5
  show ?thesis by blast
qed

subsection \<open>The name of a prebuilt package\<close>

lemma prebuilt_has_path:
  "is_prebuilt_package r \<Longrightarrow> truthy (module_path r) \<or> truthy (kernel_module_copy_files r)"
  by (auto simp: is_prebuilt_package_def split: if_splits)

lemma report_metadata_file_caches:
  "truthy path \<Longrightarrow> report_metadata_file P path r st = Inr st1 \<Longrightarrow>
   metadata_file_protos st1 path \<noteq> None"
  by (auto simp: report_metadata_file_def Let_def split: option.splits if_splits)

text \<open>
  C9. For a row that \<open>is_prebuilt_package\<close> accepts, \<open>get_prebuilt_package_name\<close> always
  assigns \<open>name\<close> before \<open>removeprefix\<close> is called on it: the variable is never left at
  \<open>None\<close>, and the call never raises \<open>AttributeError\<close>, whatever the path and the
  dictionary are. The function returns a name when the path is empty or its descriptor is
  in the dictionary, which is so where \<open>main\<close> calls it: after \<open>report_metadata_file\<close>
  has returned for that path.
\<close>

theorem prebuilt_package_name_is_bound:
  assumes "is_prebuilt_package r"
  shows "prebuilt_name_binding protos r path \<noteq> Inr None \<and>
         get_prebuilt_package_name protos r path \<noteq> Inl AttributeError \<and>
         (\<not> truthy path \<or> protos path \<noteq> None \<longrightarrow>
            (\<exists>n. get_prebuilt_package_name protos r path = Inr n)) \<and>
         (\<forall>st st1. report_metadata_file P path r st = Inr st1 \<longrightarrow>
            (\<exists>n. get_prebuilt_package_name (metadata_file_protos st1) r path = Inr n))"
proof -
  have b: "prebuilt_name_binding ps r path \<noteq> Inr None" for ps
    using prebuilt_has_path[OF assms]
    by (auto simp: prebuilt_name_binding_def bind_err_def lookup_proto_def split: option.splits)
  have a: "get_prebuilt_package_name ps r path \<noteq> Inl AttributeError" for ps
    using b[of ps]
    by (auto simp: get_prebuilt_package_name_def bind_err_def prebuilt_name_binding_def
        lookup_proto_def split: sum.splits option.splits if_splits)
  have t: "\<exists>n. get_prebuilt_package_name ps r path = Inr n"
    if "\<not> truthy path \<or> ps path \<noteq> None" for ps
    using that prebuilt_has_path[OF assms]
    by (auto simp: get_prebuilt_package_name_def bind_err_def prebuilt_name_binding_def
        lookup_proto_def split: sum.splits option.splits if_splits)
  have m: "\<exists>n. get_prebuilt_package_name (metadata_file_protos st1) r path = Inr n"
    if "report_metadata_file P path r st = Inr st1" for st st1
    using t[of "metadata_file_protos st1"] report_metadata_file_caches[OF _ that] by blast
  from a b t m show ?thesis by blast
qed

theorem prebuilt_package_name_is_bound_witness:
  "is_prebuilt_package (demo_kernel_row ''vendor/m.ko'' ''vendor/k/m.ko:out/m.ko'') \<and>
   prebuilt_name_binding Map.empty (demo_kernel_row ''vendor/m.ko'' ''vendor/k/m.ko:out/m.ko'') []
     \<noteq> Inr None \<and>
   get_prebuilt_package_name Map.empty
     (demo_kernel_row ''vendor/m.ko'' ''vendor/k/m.ko:out/m.ko'') [] \<noteq> Inl AttributeError \<and>
   (\<exists>n. get_prebuilt_package_name Map.empty
           (demo_kernel_row ''vendor/m.ko'' ''vendor/k/m.ko:out/m.ko'') [] = Inr n) \<and>
   is_prebuilt_package (demo_row ''system/a'' ''prebuilts/foo/bar'') \<and>
   \<not> isl (report_metadata_file demo_platform (str ''prebuilts/foo'')
            (demo_row ''system/a'' ''prebuilts/foo/bar'') demo_state) \<and>
   (\<exists>n. get_prebuilt_package_name
           (metadata_file_protos
              (projr (report_metadata_file demo_platform (str ''prebuilts/foo'')
                        (demo_row ''system/a'' ''prebuilts/foo/bar'') demo_state)))
           (demo_row ''system/a'' ''prebuilts/foo/bar'') (str ''prebuilts/foo'') = Inr n)"
proof -
  have k: "is_prebuilt_package (demo_kernel_row ''vendor/m.ko'' ''vendor/k/m.ko:out/m.ko'')"
    by code_simp
  have e: "\<not> truthy []" by (simp add: truthy_def)
  have p: "is_prebuilt_package (demo_row ''system/a'' ''prebuilts/foo/bar'')" by code_simp
  have r: "\<not> isl (report_metadata_file demo_platform (str ''prebuilts/foo'')
            (demo_row ''system/a'' ''prebuilts/foo/bar'') demo_state)" by code_simp
  then have r': "report_metadata_file demo_platform (str ''prebuilts/foo'')
            (demo_row ''system/a'' ''prebuilts/foo/bar'') demo_state =
          Inr (projr (report_metadata_file demo_platform (str ''prebuilts/foo'')
                        (demo_row ''system/a'' ''prebuilts/foo/bar'') demo_state))"
    by simp
  from prebuilt_package_name_is_bound[OF k, of Map.empty "[]" demo_platform] e
  have 1: "prebuilt_name_binding Map.empty
             (demo_kernel_row ''vendor/m.ko'' ''vendor/k/m.ko:out/m.ko'') [] \<noteq> Inr None \<and>
           get_prebuilt_package_name Map.empty
             (demo_kernel_row ''vendor/m.ko'' ''vendor/k/m.ko:out/m.ko'') [] \<noteq> Inl AttributeError \<and>
           (\<exists>n. get_prebuilt_package_name Map.empty
                  (demo_kernel_row ''vendor/m.ko'' ''vendor/k/m.ko:out/m.ko'') [] = Inr n)"
    by blast
  from prebuilt_package_name_is_bound[OF p, of Map.empty "str ''prebuilts/foo''" demo_platform] r'
  have 2: "\<exists>n. get_prebuilt_package_name
           (metadata_file_protos
              (projr (report_metadata_file demo_platform (str ''prebuilts/foo'')
                        (demo_row ''system/a'' ''prebuilts/foo/bar'') demo_state)))
           (demo_row ''system/a'' ''prebuilts/foo/bar'') (str ''prebuilts/foo'') = Inr n"
    by blast
  from k p r 1 2 show ?thesis by blast
qed

subsection \<open>The fragments of a source package\<close>

lemma encode_Foo: "encode_for_spdxid P (str ''Foo'') = Inr (str ''Foo'')"
  by (simp add: encode_for_spdxid_def bind_err_def str_def isalnum_def ascii_isalnum_def
      lstrip_def DASH_def)

lemma source_fragments:
  assumes src: "is_source_package r" and tp: "truthy path" and pm: "protos path = Some m"
    and nm: "truthy (md_name m)" and enc: "encode_for_spdxid P (md_name m) = Inr e"
  shows "\<exists>source_package upstream_package.
     get_sbom_fragments P A protos r path =
       Inr (None, [source_package, upstream_package],
            [\<lparr>id1 = pkg_id source_package, relationship = VARIANT_OF,
              id2 = pkg_id upstream_package\<rparr>]) \<and>
     pkg_id source_package = str ''SPDXRef-'' @ PKG_SOURCE @ str ''-'' @ e \<and>
     pkg_name source_package = md_name m \<and>
     pkg_version source_package = Some (build_version A) \<and>
     pkg_id upstream_package = str ''SPDXRef-'' @ PKG_UPSTREAM @ str ''-'' @ e \<and>
     pkg_name upstream_package = md_name m \<and>
     pkg_version upstream_package = Some (tp_version (third_party m))"
proof -
  have hp: "\<exists>h. get_package_homepage P protos path = Inr h"
    using tp pm by (simp add: get_package_homepage_def lookup_proto_def bind_err_def)
  have v: "get_package_version protos path = Inr (Some (tp_version (third_party m)))"
    using tp pm by (simp add: get_package_version_def lookup_proto_def bind_err_def)
  have dl: "\<exists>d. get_package_download_location P protos path = Inr d"
    using tp pm
    by (simp add: get_package_download_location_def lookup_proto_def bind_err_def
        split: list.splits)
  have info: "\<exists>refs. get_source_package_info P protos r path = Inr (md_name m, refs)"
    using tp pm nm
    by (simp add: get_source_package_info_def lookup_proto_def bind_err_def Let_def)
  from hp v dl info src enc show ?thesis
    by (auto simp: get_sbom_fragments_def bind_err_def new_package_id_def Let_def)
qed

text \<open>
  C4. For a row of a source package whose METADATA file, found at a non-empty path,
  declares the name \<open>Foo\<close> and the version \<open>1.2\<close>, \<open>get_sbom_fragments\<close> returns
  exactly two packages and one relationship: the package \<open>SPDXRef-SOURCE-Foo\<close>, named
  \<open>Foo\<close>, with the build version; the package \<open>SPDXRef-UPSTREAM-Foo\<close>, named \<open>Foo\<close>,
  with version \<open>1.2\<close>; and \<open>VARIANT_OF\<close> from the first to the second. No external
  document reference is returned.
\<close>

theorem source_fragment_roundtrip:
  assumes "is_source_package r" and "truthy path" and "protos path = Some m"
    and "md_name m = str ''Foo''" and "tp_version (third_party m) = str ''1.2''"
  shows "\<exists>source_package upstream_package.
     get_sbom_fragments P A protos r path =
       Inr (None, [source_package, upstream_package],
            [\<lparr>id1 = pkg_id source_package, relationship = VARIANT_OF,
              id2 = pkg_id upstream_package\<rparr>]) \<and>
     pkg_id source_package = str ''SPDXRef-SOURCE-Foo'' \<and>
     pkg_name source_package = str ''Foo'' \<and>
     pkg_version source_package = Some (build_version A) \<and>
     pkg_id upstream_package = str ''SPDXRef-UPSTREAM-Foo'' \<and>
     pkg_name upstream_package = str ''Foo'' \<and>
     pkg_version upstream_package = Some (str ''1.2'')"
proof -
  have nm: "truthy (md_name m)" using assms(4) by (simp add: truthy_def str_def)
  have enc: "encode_for_spdxid P (md_name m) = Inr (str ''Foo'')"
    using assms(4) encode_Foo by simp
  have s1: "str ''SPDXRef-'' @ PKG_SOURCE @ str ''-'' @ str ''Foo'' = str ''SPDXRef-SOURCE-Foo''"
    by (simp add: str_def PKG_SOURCE_def)
  have s2: "str ''SPDXRef-'' @ PKG_UPSTREAM @ str ''-'' @ str ''Foo'' =
            str ''SPDXRef-UPSTREAM-Foo''"
    by (simp add: str_def PKG_UPSTREAM_def)
  have "\<exists>source_package upstream_package.
     get_sbom_fragments P A protos r path =
       Inr (None, [source_package, upstream_package],
            [\<lparr>id1 = pkg_id source_package, relationship = VARIANT_OF,
              id2 = pkg_id upstream_package\<rparr>]) \<and>
     pkg_id source_package = str ''SPDXRef-'' @ PKG_SOURCE @ str ''-'' @ str ''Foo'' \<and>
     pkg_name source_package = md_name m \<and>
     pkg_version source_package = Some (build_version A) \<and>
     pkg_id upstream_package = str ''SPDXRef-'' @ PKG_UPSTREAM @ str ''-'' @ str ''Foo'' \<and>
     pkg_name upstream_package = md_name m \<and>
     pkg_version upstream_package = Some (tp_version (third_party m))"
    using assms(1) assms(2) assms(3) nm enc by (rule source_fragments)
  then show ?thesis unfolding s1 s2 assms(4) assms(5) .
qed

theorem source_fragment_roundtrip_witness:
  "is_source_package (demo_row ''system/a'' ''external/foo'') \<and>
   truthy (str ''external/foo'') \<and>
   demo_protos (str ''external/foo'') = Some demo_metadata \<and>
   md_name demo_metadata = str ''Foo'' \<and>
   tp_version (third_party demo_metadata) = str ''1.2'' \<and>
   (\<exists>source_package upstream_package.
     get_sbom_fragments demo_platform demo_args demo_protos
         (demo_row ''system/a'' ''external/foo'') (str ''external/foo'') =
       Inr (None, [source_package, upstream_package],
            [\<lparr>id1 = pkg_id source_package, relationship = VARIANT_OF,
              id2 = pkg_id upstream_package\<rparr>]) \<and>
     pkg_id source_package = str ''SPDXRef-SOURCE-Foo'' \<and>
     pkg_name source_package = str ''Foo'' \<and>
     pkg_version source_package = Some (build_version demo_args) \<and>
     pkg_id upstream_package = str ''SPDXRef-UPSTREAM-Foo'' \<and>
     pkg_name upstream_package = str ''Foo'' \<and>
     pkg_version upstream_package = Some (str ''1.2''))"
proof -
  have 1: "is_source_package (demo_row ''system/a'' ''external/foo'')" by code_simp
  have 2: "truthy (str ''external/foo'')" by code_simp
  have 3: "demo_protos (str ''external/foo'') = Some demo_metadata"
    by (simp add: demo_protos_def str_def)
  have 4: "md_name demo_metadata = str ''Foo''" by (simp add: demo_metadata_def)
  have 5: "tp_version (third_party demo_metadata) = str ''1.2''" by (simp add: demo_metadata_def)
  from source_fragment_roundtrip[where r = "demo_row ''system/a'' ''external/foo''"
      and path = "str ''external/foo''" and protos = demo_protos and m = demo_metadata
      and P = demo_platform and A = demo_args, OF 1 2 3 4 5] 1 2 3 4 5
  show ?thesis by (intro conjI)
qed

subsection \<open>The fragments of a prebuilt package\<close>

lemma prebuilt_not_source: "is_prebuilt_package r \<Longrightarrow> \<not> is_source_package r"
  by (simp add: is_source_package_def)

lemma prebuilt_name_chain:
  "get_prebuilt_package_name protos r path =
     (if truthy path
      then (case protos path of
              None \<Rightarrow> Inl KeyError
            | Some m \<Rightarrow> if truthy (md_name m) then Inr (prebuilt_name_of (md_name m))
                        else Inr (prebuilt_name_of path))
      else if truthy (module_path r) then Inr (prebuilt_name_of (module_path r))
      else if truthy (kernel_module_copy_files r)
      then Inr (prebuilt_name_of (dirname (split_first (kernel_module_copy_files r) COLON)))
      else Inl AttributeError)"
  by (simp add: get_prebuilt_package_name_def prebuilt_name_binding_def bind_err_def
      lookup_proto_def prebuilt_name_of_def split: option.splits)

lemma prebuilt_fragments_no_descriptor:
  assumes pre: "is_prebuilt_package r"
    and nm: "get_prebuilt_package_name protos r [] = Inr n"
    and enc: "encode_for_spdxid P n = Inr e"
  shows "get_sbom_fragments P A protos r [] =
      Inr (None,
           [\<lparr>pkg_id = str ''SPDXRef-'' @ PKG_PREBUILT @ str ''-'' @ e, pkg_name = n,
             pkg_version = Some (build_version A),
             pkg_supplier = Some (str ''Organization: '' @ product_mfr A),
             pkg_download_location = Some (VALUE_NONE P),
             pkg_external_refs = [], pkg_files_analyzed = False,
             pkg_verification_code = None, pkg_file_ids = []\<rparr>],
           [])"
  using pre prebuilt_not_source[OF pre] nm enc
  by (simp add: get_sbom_fragments_def bind_err_def get_package_homepage_def
      get_package_version_def get_package_download_location_def truthy_def
      new_package_id_def prebuilt_sbom_ref_def)

lemma name_foo_bar: "prebuilt_name_of (str ''prebuilts/foo/bar'') = str ''foo-bar''"
  by (simp add: prebuilt_name_of_def removeprefix_def startswith_def replace_char_def str_def
      SLASH_def DASH_def)

lemma encode_foo_bar: "encode_for_spdxid P (str ''foo-bar'') = Inr (str ''foo-bar'')"
  by (simp add: encode_for_spdxid_def bind_err_def str_def isalnum_def ascii_isalnum_def
      lstrip_def DASH_def)

text \<open>
  C5. For a row of a prebuilt package with module path \<open>prebuilts/foo/bar\<close> and no
  METADATA file found (the empty path), \<open>get_sbom_fragments\<close> returns one package and
  nothing else: \<open>SPDXRef-PREBUILT-foo-bar\<close>, named \<open>foo-bar\<close>, with the build version and
  the download location \<open>VALUE_NONE\<close>. In general the name of a prebuilt package is,
  with the prefix \<open>prebuilts/\<close> removed and every slash turned into a dash, the first
  of: the name in the METADATA file; the path of the METADATA file; the module path; the
  directory of the source of the kernel-module copy.
\<close>

theorem prebuilt_fragment_and_name:
  assumes "is_prebuilt_package r"
  shows "(module_path r = str ''prebuilts/foo/bar'' \<longrightarrow>
            get_sbom_fragments P A protos r [] =
              Inr (None,
                   [\<lparr>pkg_id = str ''SPDXRef-PREBUILT-foo-bar'', pkg_name = str ''foo-bar'',
                     pkg_version = Some (build_version A),
                     pkg_supplier = Some (str ''Organization: '' @ product_mfr A),
                     pkg_download_location = Some (VALUE_NONE P),
                     pkg_external_refs = [], pkg_files_analyzed = False,
                     pkg_verification_code = None, pkg_file_ids = []\<rparr>],
                   [])) \<and>
         (\<forall>m. truthy path \<and> protos path = Some m \<and> truthy (md_name m) \<longrightarrow>
            get_prebuilt_package_name protos r path = Inr (prebuilt_name_of (md_name m))) \<and>
         (\<forall>m. truthy path \<and> protos path = Some m \<and> \<not> truthy (md_name m) \<longrightarrow>
            get_prebuilt_package_name protos r path = Inr (prebuilt_name_of path)) \<and>
         (\<not> truthy path \<and> truthy (module_path r) \<longrightarrow>
            get_prebuilt_package_name protos r path = Inr (prebuilt_name_of (module_path r))) \<and>
         (\<not> truthy path \<and> \<not> truthy (module_path r) \<longrightarrow>
            get_prebuilt_package_name protos r path =
              Inr (prebuilt_name_of (dirname (split_first (kernel_module_copy_files r) COLON))))"
proof (intro conjI impI allI)
  assume mp: "module_path r = str ''prebuilts/foo/bar''"
  then have nm: "get_prebuilt_package_name protos r [] = Inr (str ''foo-bar'')"
    using name_foo_bar by (simp add: prebuilt_name_chain truthy_def str_def)
  from prebuilt_fragments_no_descriptor[where A = A and P = P, OF assms nm encode_foo_bar]
  show "get_sbom_fragments P A protos r [] =
              Inr (None,
                   [\<lparr>pkg_id = str ''SPDXRef-PREBUILT-foo-bar'', pkg_name = str ''foo-bar'',
                     pkg_version = Some (build_version A),
                     pkg_supplier = Some (str ''Organization: '' @ product_mfr A),
                     pkg_download_location = Some (VALUE_NONE P),
                     pkg_external_refs = [], pkg_files_analyzed = False,
                     pkg_verification_code = None, pkg_file_ids = []\<rparr>],
                   [])"
    by (simp add: PKG_PREBUILT_def str_def)
next
  fix m assume "truthy path \<and> protos path = Some m \<and> truthy (md_name m)"
  then show "get_prebuilt_package_name protos r path = Inr (prebuilt_name_of (md_name m))"
    by (simp add: prebuilt_name_chain)
next
  fix m assume "truthy path \<and> protos path = Some m \<and> \<not> truthy (md_name m)"
  then show "get_prebuilt_package_name protos r path = Inr (prebuilt_name_of path)"
    by (simp add: prebuilt_name_chain)
next
  assume "\<not> truthy path \<and> truthy (module_path r)"
  then show "get_prebuilt_package_name protos r path = Inr (prebuilt_name_of (module_path r))"
    by (simp add: prebuilt_name_chain)
next
  assume a: "\<not> truthy path \<and> \<not> truthy (module_path r)"
  with assms have "truthy (kernel_module_copy_files r)"
    by (auto simp: is_prebuilt_package_def split: if_splits)
  with a show "get_prebuilt_package_name protos r path =
              Inr (prebuilt_name_of (dirname (split_first (kernel_module_copy_files r) COLON)))"
    by (simp add: prebuilt_name_chain)
qed

theorem prebuilt_fragment_and_name_witness:
  "is_prebuilt_package (demo_row ''system/a'' ''prebuilts/foo/bar'') \<and>
   module_path (demo_row ''system/a'' ''prebuilts/foo/bar'') = str ''prebuilts/foo/bar'' \<and>
   get_sbom_fragments demo_platform demo_args demo_protos
       (demo_row ''system/a'' ''prebuilts/foo/bar'') [] =
     Inr (None,
          [\<lparr>pkg_id = str ''SPDXRef-PREBUILT-foo-bar'', pkg_name = str ''foo-bar'',
            pkg_version = Some (str ''14''),
            pkg_supplier = Some (str ''Organization: Acme''),
            pkg_download_location = Some (str ''NONE''),
            pkg_external_refs = [], pkg_files_analyzed = False,
            pkg_verification_code = None, pkg_file_ids = []\<rparr>],
          []) \<and>
   get_prebuilt_package_name demo_protos (demo_row ''system/a'' ''prebuilts/foo/bar'') [] =
     Inr (str ''foo-bar'') \<and>
   get_prebuilt_package_name demo_protos (demo_row ''system/a'' ''prebuilts/foo/bar'')
     (str ''prebuilts/foo'') = Inr (str ''foo'') \<and>
   get_prebuilt_package_name demo_protos (demo_row ''system/a'' ''prebuilts/foo/bar'')
     (str ''external/foo'') = Inr (str ''Foo'') \<and>
   is_prebuilt_package (demo_kernel_row ''vendor/m.ko'' ''vendor/k/m.ko:out/m.ko'') \<and>
   get_prebuilt_package_name demo_protos
     (demo_kernel_row ''vendor/m.ko'' ''vendor/k/m.ko:out/m.ko'') [] = Inr (str ''vendor-k'')"
proof -
  have p: "is_prebuilt_package (demo_row ''system/a'' ''prebuilts/foo/bar'')" by code_simp
  have k: "is_prebuilt_package (demo_kernel_row ''vendor/m.ko'' ''vendor/k/m.ko:out/m.ko'')"
    by code_simp
  have mp: "module_path (demo_row ''system/a'' ''prebuilts/foo/bar'') = str ''prebuilts/foo/bar''"
    by (simp add: demo_row_def)
  have e: "\<not> truthy []" by (simp add: truthy_def)
  have t1: "truthy (str ''prebuilts/foo'')" by code_simp
  have t2: "truthy (str ''external/foo'')" by code_simp
  have t3: "truthy (module_path (demo_row ''system/a'' ''prebuilts/foo/bar''))" by code_simp
  have t4: "\<not> truthy (module_path (demo_kernel_row ''vendor/m.ko'' ''vendor/k/m.ko:out/m.ko''))"
    by code_simp
  have l1: "demo_protos (str ''prebuilts/foo'') = Some demo_unnamed_metadata"
    by (simp add: demo_protos_def str_def)
  have l2: "demo_protos (str ''external/foo'') = Some demo_metadata"
    by (simp add: demo_protos_def str_def)
  have n1: "\<not> truthy (md_name demo_unnamed_metadata)" by code_simp
  have n2: "truthy (md_name demo_metadata)" by code_simp
  have v1: "prebuilt_name_of (str ''prebuilts/foo'') = str ''foo''" by code_simp
  have v2: "prebuilt_name_of (md_name demo_metadata) = str ''Foo''" by code_simp
  have v3: "prebuilt_name_of (module_path (demo_row ''system/a'' ''prebuilts/foo/bar'')) =
            str ''foo-bar''" by code_simp
  have v4: "prebuilt_name_of (dirname (split_first (kernel_module_copy_files
              (demo_kernel_row ''vendor/m.ko'' ''vendor/k/m.ko:out/m.ko'')) COLON)) =
            str ''vendor-k''" by code_simp
  have c: "build_version demo_args = str ''14'' \<and>
           str ''Organization: '' @ product_mfr demo_args = str ''Organization: Acme'' \<and>
           VALUE_NONE demo_platform = str ''NONE''"
    by (simp add: demo_args_def demo_platform_def str_def)
  from prebuilt_fragment_and_name[OF p, of demo_platform demo_args demo_protos "[]"] mp e t3
  have a: "get_sbom_fragments demo_platform demo_args demo_protos
       (demo_row ''system/a'' ''prebuilts/foo/bar'') [] =
     Inr (None,
          [\<lparr>pkg_id = str ''SPDXRef-PREBUILT-foo-bar'', pkg_name = str ''foo-bar'',
            pkg_version = Some (str ''14''),
            pkg_supplier = Some (str ''Organization: Acme''),
            pkg_download_location = Some (str ''NONE''),
            pkg_external_refs = [], pkg_files_analyzed = False,
            pkg_verification_code = None, pkg_file_ids = []\<rparr>],
          [])"
    and b: "get_prebuilt_package_name demo_protos (demo_row ''system/a'' ''prebuilts/foo/bar'') [] =
     Inr (str ''foo-bar'')"
    unfolding v3 using c by simp_all
  from prebuilt_fragment_and_name[OF p, of demo_platform demo_args demo_protos
      "str ''prebuilts/foo''"]
  have "truthy (str ''prebuilts/foo'') \<and>
        demo_protos (str ''prebuilts/foo'') = Some demo_unnamed_metadata \<and>
        \<not> truthy (md_name demo_unnamed_metadata) \<longrightarrow>
        get_prebuilt_package_name demo_protos (demo_row ''system/a'' ''prebuilts/foo/bar'')
          (str ''prebuilts/foo'') = Inr (prebuilt_name_of (str ''prebuilts/foo''))"
    by (elim conjE allE)
  with t1 l1 n1
  have d: "get_prebuilt_package_name demo_protos (demo_row ''system/a'' ''prebuilts/foo/bar'')
     (str ''prebuilts/foo'') = Inr (str ''foo'')"
    unfolding v1 by (elim impE) (intro conjI)
  from prebuilt_fragment_and_name[OF p, of demo_platform demo_args demo_protos
      "str ''external/foo''"]
  have "truthy (str ''external/foo'') \<and>
        demo_protos (str ''external/foo'') = Some demo_metadata \<and>
        truthy (md_name demo_metadata) \<longrightarrow>
        get_prebuilt_package_name demo_protos (demo_row ''system/a'' ''prebuilts/foo/bar'')
          (str ''external/foo'') = Inr (prebuilt_name_of (md_name demo_metadata))"
    by (elim conjE allE)
  with t2 l2 n2
  have f: "get_prebuilt_package_name demo_protos (demo_row ''system/a'' ''prebuilts/foo/bar'')
     (str ''external/foo'') = Inr (str ''Foo'')"
    unfolding v2 by (elim impE) (intro conjI)
  from prebuilt_fragment_and_name[OF k, of demo_platform demo_args demo_protos "[]"] e t4
  have g: "get_prebuilt_package_name demo_protos
     (demo_kernel_row ''vendor/m.ko'' ''vendor/k/m.ko:out/m.ko'') [] = Inr (str ''vendor-k'')"
    unfolding v4 by blast
  from p mp a b d f k g show ?thesis by blast
qed

subsection \<open>Security tags\<close>










subsection \<open>The files of the document\<close>














subsection \<open>The dictionary of descriptors\<close>

text \<open>
  A call of \<open>report_metadata_file\<close> for a directory whose descriptor is already in
  the dictionary parses the METADATA file again and leaves the dictionary as it is.
\<close>

lemma report_metadata_file_parses_again:
  assumes "truthy path" and "metadata_file_protos st path = Some m0"
    and "parse_metadata P (path @ str ''/METADATA'') = Some m"
  shows "\<exists>st1. report_metadata_file P path r st = Inr st1 \<and>
           parse_log st1 = parse_log st @ [path @ str ''/METADATA''] \<and>
           metadata_file_protos st1 = metadata_file_protos st"
  using assms by (simp add: report_metadata_file_def Let_def)

text \<open>
  C1. Two installed files of the package \<open>external/foo\<close> resolve to the same directory.
  The run parses \<open>external/foo/METADATA\<close> twice, once for each file; the dictionary
  holds the descriptor once. The claim, that the second resolution triggers no parse,
  does not hold of the program.
\<close>

theorem descriptor_parsed_for_each_file:
  "get_metadata_file_path demo_platform (demo_row ''system/a'' ''external/foo'') =
     Some (str ''external/foo'') \<and>
   get_metadata_file_path demo_platform (demo_row ''system/b'' ''external/foo'') =
     Some (str ''external/foo'') \<and>
   (case main_loop demo_platform demo_args demo_same_package_rows demo_state of
      Inl e \<Rightarrow> False
    | Inr st \<Rightarrow>
        parse_log st = [str ''external/foo/METADATA'', str ''external/foo/METADATA''] \<and>
        metadata_file_protos st (str ''external/foo'') = Some demo_metadata)"
  by code_simp

end
